theory Spec2Isabelle
  imports Main "HOL-Library.Char_ord" "HOL-Library.List_Lexorder" "HOL-Library.AList"
begin

section \<open>Severity levels\<close>

text \<open>
  Modelled from the spec: the declaration of the type \<open>Level\<close> and of its six constants is
  not among the sources. The spec (section 3) gives the ordered enumeration
  Panic, Fatal, Error, Warn, Info, Debug, "numerically increasing = more verbose,
  consistent with \<open>logger.Level >= X\<close> enables X". The level is an unsigned number, so the
  model uses \<open>nat\<close>: a Logger's \<open>Level\<close> field can hold any number, not only the six names.
\<close>

type_synonym Level = nat

definition PanicLevel :: Level where "PanicLevel = 0"
definition FatalLevel :: Level where "FatalLevel = 1"
definition ErrorLevel :: Level where "ErrorLevel = 2"
definition WarnLevel :: Level where "WarnLevel = 3"
definition InfoLevel :: Level where "InfoLevel = 4"
definition DebugLevel :: Level where "DebugLevel = 5"

text \<open>
  Modelled from the spec: \<open>Level.String\<close> is not among the sources; the six names are the
  ones \<open>TestConvertLevelToString\<close> (logrus_test.go) expects.
\<close>

definition Level_String :: "Level \<Rightarrow> string" where
  "Level_String l =
     (if l = DebugLevel then ''debug''
      else if l = InfoLevel then ''info''
      else if l = WarnLevel then ''warning''
      else if l = ErrorLevel then ''error''
      else if l = FatalLevel then ''fatal''
      else if l = PanicLevel then ''panic''
      else ''unknown'')"

section \<open>Run-time panics\<close>

text \<open>
  A Go panic is a value of the model: a slice expression out of range, or the explicit
  \<open>panic(err)\<close> of \<open>printBlock\<close>, which carries the error's text.
\<close>

datatype panic = SliceBoundsOutOfRange | PanicErr string

section \<open>The prefix parser\<close>

text \<open>
  \<open>PrefixStrCmp.Parse\<close> (logger, third copy): \<open>prefix := str[:7]\<close> panics when the string
  has fewer than 7 bytes; the \<open>switch\<close> has a \<open>default\<close> branch, so the \<open>return\<close> with
  \<open>fmt.Errorf\<close> after it is never reached. The returned error is \<open>None\<close> for \<open>nil\<close>.
\<close>

definition PrefixStrCmp_Parse :: "string \<Rightarrow> panic + (Level \<times> string option)" where
  "PrefixStrCmp_Parse str =
     (if length str < 7 then Inl SliceBoundsOutOfRange
      else let prefix = take 7 str in
        if prefix = ''[INFO] '' then Inr (InfoLevel, None)
        else if prefix = ''[WARN] '' then Inr (WarnLevel, None)
        else if prefix = ''[ERROR]'' then Inr (ErrorLevel, None)
        else if prefix = ''[FATAL]'' then Inr (FatalLevel, None)
        else if prefix = ''[DEBUG]'' then Inr (DebugLevel, None)
        else if prefix = ''[PANIC]'' then Inr (PanicLevel, None)
        else Inr (DebugLevel, None))"

definition recognized_prefixes :: "(string \<times> Level) list" where
  "recognized_prefixes =
     [(''[INFO] '', InfoLevel), (''[WARN] '', WarnLevel), (''[ERROR]'', ErrorLevel),
      (''[FATAL]'', FatalLevel), (''[DEBUG]'', DebugLevel), (''[PANIC]'', PanicLevel)]"

section \<open>What the sources use and do not define\<close>

text \<open>
  Field values are Go \<open>interface{}\<close> values; the model keeps them abstract as the type
  variable \<open>'v\<close>, and a nil interface (the value read from a map at a missing key, or a nil
  payload) is \<open>None\<close>. The functions of Go's standard library that the sources call on
  such values, and the package-level constants whose declarations are not among the
  sources (\<open>moduleKey\<close>, \<open>DefaultTimestampFormat\<close>, \<open>ErrorKey\<close>, the helper
  \<open>prefixFieldClashes\<close>), are the fields of one record that every function of the model
  takes as its first argument. A time is a number whose unit does not matter here.
\<close>

type_synonym 'v Fields = "(string \<times> 'v) list"

record 'v golib =
  fmt_Sprint :: "'v list \<Rightarrow> string"
  fmt_Sprintln :: "'v list \<Rightarrow> string"
  fmt_Sprintf :: "string \<Rightarrow> 'v list \<Rightarrow> string"
  fmt_plus_v :: "'v option \<Rightarrow> string"
  fmt_s :: "'v option \<Rightarrow> string"
  fmt_d :: "int \<Rightarrow> string"
  fmt_04d :: "int \<Rightarrow> string"
  fmt_pad :: "nat \<Rightarrow> string \<Rightarrow> string"
  strings_ToUpper :: "string \<Rightarrow> string"
  json_Marshal :: "'v option \<Rightarrow> string + string"
  json_Indent :: "string \<Rightarrow> string \<Rightarrow> string \<Rightarrow> string + string"
  time_Format :: "nat \<Rightarrow> string \<Rightarrow> string"
  error_value :: "string \<Rightarrow> 'v"
  string_value :: "string \<Rightarrow> 'v"
  moduleKey :: string
  ErrorKey :: string
  DefaultTimestampFormat :: string
  prefixFieldClashes :: "'v Fields \<Rightarrow> 'v Fields"
  isTerminal :: bool
  runtime_GOOS :: string
  miniTS :: int

text \<open>
  \<open>fmt_plus_v\<close> is \<open>fmt.Sprintf("%+v", v)\<close>, \<open>fmt_s\<close>, \<open>fmt_d\<close> and \<open>fmt_04d\<close> are the
  verbs \<open>%s\<close>, \<open>%d\<close> and \<open>%04d\<close>, \<open>fmt_pad n\<close> is \<open>%-ns\<close>. \<open>json_Marshal\<close> and
  \<open>json_Indent\<close> return \<open>Inl\<close> of the error's text when they fail. \<open>error_value\<close> and
  \<open>string_value\<close> wrap an error and a string as an interface value.
\<close>

definition NL :: string where "NL = [CHR 0x0A]"
definition ESC :: string where "ESC = [CHR 0x1B]"

definition nocolor :: int where "nocolor = 0"
definition red :: int where "red = 31"
definition green :: int where "green = 32"
definition yellow :: int where "yellow = 33"
definition blue :: int where "blue = 34"
definition gray :: int where "gray = 37"

section \<open>The entry as the formatter reads it\<close>

text \<open>
  Modelled from the spec: the type \<open>Entry\<close> and its methods are not among the sources.
  The spec (section 3) lists its contents: module path, Fields, Message, Time, Level,
  optional raw JSON payload, optional render Buffer, and the owning Logger. The formatter
  reads an entry through the getters of the interface \<open>FormatterInput\<close>, and the record's
  fields carry the getters' names. The owning Logger is not a field: the functions that
  need it take it as an argument.
\<close>

record 'v Entry =
  GetData :: "'v Fields"
  GetTime :: nat
  GetLevel :: Level
  GetMessage :: string
  GetJsonRaw :: "string option"
  GetBuffer :: "string option"

section \<open>The text formatter\<close>

record TextFormatter =
  ForceColors :: bool
  DisableColors :: bool
  DisableTimestamp :: bool
  FullTimestamp :: bool
  TimestampFormat :: string
  DisableSorting :: bool

text \<open>
  A slice expression \<open>s[lo:hi]\<close> of a string: Go panics unless \<open>0 \<le> lo \<le> hi \<le> len(s)\<close>.
\<close>

definition slice :: "string \<Rightarrow> int \<Rightarrow> int \<Rightarrow> panic + string" where
  "slice s lo hi =
     (if 0 \<le> lo \<and> lo \<le> hi \<and> hi \<le> int (length s)
      then Inr (take (nat (hi - lo)) (drop (nat lo) s))
      else Inl SliceBoundsOutOfRange)"

text \<open>
  \<open>tripHeadAndTail\<close>: \<open>count\<close> is rounded up to an even number; the head is
  \<open>src[:count/2]\<close>, the tail is \<open>src[length-count/2 : length-1]\<close>. An even number divides
  by two exactly, so Go's truncating division and \<open>div\<close> agree.
\<close>

definition tripHeadAndTail :: "string \<Rightarrow> int \<Rightarrow> panic + string" where
  "tripHeadAndTail src count0 =
     (let len = int (length src) in
      if len \<le> count0 then Inr src
      else
        let count = (if count0 mod 2 \<noteq> 0 then count0 + 1 else count0) in
        case slice src 0 (count div 2) of
          Inl p \<Rightarrow> Inl p
        | Inr h \<Rightarrow>
            (case slice src (len - count div 2) (len - 1) of
               Inl p \<Rightarrow> Inl p
             | Inr t \<Rightarrow> Inr (h @ ''...'' @ t)))"

text \<open>
  \<open>prettyJSON\<close>: \<open>json.Indent\<close> with the six-space prefix; a failure becomes text.
\<close>

definition prettyJSON :: "'v golib \<Rightarrow> string \<Rightarrow> string" where
  "prettyJSON lib js =
     (let prefix = ''      '' in
      case json_Indent lib js prefix ''  '' of
        Inl err \<Rightarrow> ''JSON parse error: '' @ err
      | Inr s \<Rightarrow> prefix @ s)"

text \<open>
  One field line of the plain layout: the body of the loop over \<open>keys\<close> in \<open>Format\<close>
  (the \<open>continue\<close> for the module key is in the loop below).
\<close>

definition plainFieldLine :: "'v golib \<Rightarrow> 'v Fields \<Rightarrow> string \<Rightarrow> panic + string" where
  "plainFieldLine lib data key =
     (let v = fmt_plus_v lib (map_of data key) in
      case tripHeadAndTail v 128 of
        Inl p \<Rightarrow> Inl p
      | Inr t \<Rightarrow> Inr (NL @ ''     - '' @ fmt_pad lib 8 key @ '' = '' @ t))"

fun plainFieldLines :: "'v golib \<Rightarrow> 'v Fields \<Rightarrow> string list \<Rightarrow> panic + string" where
  "plainFieldLines lib data [] = Inr []"
| "plainFieldLines lib data (key # keys) =
     (if key = moduleKey lib then plainFieldLines lib data keys
      else case plainFieldLine lib data key of
        Inl p \<Rightarrow> Inl p
      | Inr line \<Rightarrow>
          (case plainFieldLines lib data keys of
             Inl p \<Rightarrow> Inl p
           | Inr rest \<Rightarrow> Inr (line @ rest)))"

text \<open>One field line of the colored layout: the body of the loop in \<open>printColored\<close>.\<close>

definition coloredFieldLine :: "'v golib \<Rightarrow> 'v Fields \<Rightarrow> string \<Rightarrow> panic + string" where
  "coloredFieldLine lib data k =
     (let v = fmt_plus_v lib (map_of data k) in
      case tripHeadAndTail v 128 of
        Inl p \<Rightarrow> Inl p
      | Inr t \<Rightarrow>
          Inr (NL @ ''      '' @ ESC @ ''['' @ fmt_d lib gray @ ''m- '' @ fmt_pad lib 8 k
               @ '' = '' @ t @ '' '' @ ESC @ ''[0m''))"

fun coloredFieldLines :: "'v golib \<Rightarrow> 'v Fields \<Rightarrow> string list \<Rightarrow> panic + string" where
  "coloredFieldLines lib data [] = Inr []"
| "coloredFieldLines lib data (k # keys) =
     (case coloredFieldLine lib data k of
        Inl p \<Rightarrow> Inl p
      | Inr line \<Rightarrow>
          (case coloredFieldLines lib data keys of
             Inl p \<Rightarrow> Inl p
           | Inr rest \<Rightarrow> Inr (line @ rest)))"

definition printColored ::
  "'v golib \<Rightarrow> TextFormatter \<Rightarrow> 'v Entry \<Rightarrow> 'v Fields \<Rightarrow> string list \<Rightarrow> string
   \<Rightarrow> panic + string" where
  "printColored lib f entry data keys timestampFormat =
     (let levelColor =
            (if GetLevel entry = DebugLevel then gray
             else if GetLevel entry = WarnLevel then yellow
             else if GetLevel entry = ErrorLevel \<or> GetLevel entry = FatalLevel
                     \<or> GetLevel entry = PanicLevel then red
             else blue);
          levelText = strings_ToUpper lib (Level_String (GetLevel entry));
          header =
            (if \<not> FullTimestamp f
             then ESC @ ''['' @ fmt_d lib levelColor @ ''m '' @ levelText
                  @ fmt_pad lib 44 (GetMessage entry) @ ''  ('' @ fmt_s lib (map_of data (moduleKey lib))
                  @ '')['' @ fmt_04d lib (miniTS lib) @ '']'' @ ESC @ ''[0m''
             else ESC @ ''['' @ fmt_d lib levelColor @ ''m '' @ levelText @ '' ''
                  @ fmt_pad lib 44 (GetMessage entry) @ ''  ('' @ fmt_s lib (map_of data (moduleKey lib))
                  @ '')['' @ time_Format lib (GetTime entry) timestampFormat @ '']'' @ ESC @ ''[0m'')
      in case coloredFieldLines lib data keys of
           Inl p \<Rightarrow> Inl p
         | Inr ls \<Rightarrow>
             Inr (header @ ls @
                  (case GetJsonRaw entry of
                     None \<Rightarrow> []
                   | Some jsonRaw \<Rightarrow>
                       ESC @ ''['' @ fmt_d lib gray @ ''m '' @ NL @ prettyJSON lib jsonRaw
                       @ '' '' @ ESC @ ''[0m'')))"

text \<open>
  \<open>TextFormatter.Format\<close> (the version with the \<open>callDepth\<close> argument, which the logger
  of this study calls). The keys are collected before \<open>prefixFieldClashes\<close> runs on the
  entry's map, and the values are read after it. When sorting is disabled the keys come
  in the map's iteration order, which is the order of the association list here. The
  result is the text appended to the entry's buffer, or to a new empty one; the
  returned error is always nil, so the result is the bytes or a panic.
\<close>

definition TextFormatter_Format ::
  "'v golib \<Rightarrow> TextFormatter \<Rightarrow> 'v Entry \<Rightarrow> int \<Rightarrow> panic + string" where
  "TextFormatter_Format lib f entry callDepth =
     (let keys0 = map fst (GetData entry);
          keys = (if \<not> DisableSorting f then sort keys0 else keys0);
          b = (case GetBuffer entry of Some buf \<Rightarrow> buf | None \<Rightarrow> []);
          data = prefixFieldClashes lib (GetData entry);
          isColorTerminal = (isTerminal lib \<and> runtime_GOOS lib \<noteq> ''windows'');
          isColored = ((ForceColors f \<or> isColorTerminal) \<and> \<not> DisableColors f);
          timestampFormat =
            (if TimestampFormat f = [] then DefaultTimestampFormat lib else TimestampFormat f)
      in case (if isColored then printColored lib f entry data keys timestampFormat
               else case plainFieldLines lib data keys of
                 Inl p \<Rightarrow> Inl p
               | Inr ls \<Rightarrow>
                   Inr (Level_String (GetLevel entry) @ fmt_pad lib 44 (GetMessage entry)
                        @ ''  ('' @ fmt_s lib (map_of data (moduleKey lib)) @ '')[''
                        @ time_Format lib (GetTime entry) timestampFormat @ '']'' @ ls
                        @ (case GetJsonRaw entry of
                             None \<Rightarrow> []
                           | Some jsonRaw \<Rightarrow> NL @ prettyJSON lib jsonRaw))) of
           Inl p \<Rightarrow> Inl p
         | Inr body \<Rightarrow> Inr (b @ body @ NL))"

section \<open>Writers\<close>

text \<open>
  An \<open>io.Writer\<close> is known by its identity: the standard error stream or another writer.
  What each writer has received is a list with one element per call of \<open>Write\<close>. A
  failed write is not modelled: the sources ignore the result of \<open>Write\<close>.
\<close>

datatype writer = Stderr | Writer nat

type_synonym outputs = "writer \<Rightarrow> string list"

definition Write :: "writer \<Rightarrow> string \<Rightarrow> outputs \<Rightarrow> outputs" where
  "Write w bs outs = outs(w := outs w @ [bs])"

section \<open>The logger\<close>

text \<open>
  The struct \<open>Logger\<close> of the third copy of the logger (the one with \<open>moduleName\<close>,
  \<open>SetLevel\<close> and the registry). The formatter is the text formatter, the one
  implementation of the interface among the sources. The mutex is left out: the model is
  sequential. The pool holds the released entries.
\<close>

record 'v Logger =
  Out :: writer
  Formatter :: TextFormatter
  Level :: Level
  entryPool :: "'v Entry list"
  moduleName :: string

fun strings_Join :: "string list \<Rightarrow> string \<Rightarrow> string" where
  "strings_Join [] sep = []"
| "strings_Join [x] sep = x"
| "strings_Join (x # y # ys) sep = x @ sep @ strings_Join (y # ys) sep"

definition new_TextFormatter :: TextFormatter where
  "new_TextFormatter =
     \<lparr>ForceColors = False, DisableColors = False, DisableTimestamp = False,
      FullTimestamp = False, TimestampFormat = [], DisableSorting = False\<rparr>"

text \<open>
  \<open>New\<close>: the append of the new logger to the package's registry \<open>loggers\<close>, which only
  the package-level \<open>SetOutput\<close> reads, is left out.
\<close>

definition New :: "string list \<Rightarrow> 'v Logger" where
  "New moduleNames0 =
     (let moduleNames = (if moduleNames0 = [] then [''main''] else moduleNames0) in
      \<lparr>Out = Stderr, Formatter = new_TextFormatter, Level = DebugLevel,
       entryPool = [], moduleName = strings_Join moduleNames ''/''\<rparr>)"

definition SetLevel :: "'v Logger \<Rightarrow> Level \<Rightarrow> 'v Logger" where
  "SetLevel logger level = logger\<lparr>Level := level\<rparr>"

section \<open>Entries\<close>

text \<open>
  Modelled from the spec: \<open>NewEntry\<close>, the \<open>With*\<close> methods of \<open>Entry\<close> and \<open>Entry.log\<close>
  are not among the sources. A freshly constructed entry has no user field, no message, no
  payload and no buffer; the formatter reads the module path from the entry's map at
  \<open>moduleKey\<close>, so the new entry holds it there. The spec (section 3) has the \<open>With*\<close>
  calls return "a new logical view", the field map "copied-on-branch", and (section 4.1)
  merge the given data "into its field map (later keys overwrite earlier ones sharing the
  same name)": the result is a copy of the receiver with the merged map, and the receiver
  is left as it was, which is also what \<open>TestWithFieldsShouldAllowAssignments\<close>
  (logrus_test.go) expects of \<open>Entry.WithField\<close>.
\<close>

definition NewEntry :: "'v golib \<Rightarrow> string \<Rightarrow> 'v Entry" where
  "NewEntry lib name =
     \<lparr>GetData = [(moduleKey lib, string_value lib name)], GetTime = 0, GetLevel = 0,
      GetMessage = [], GetJsonRaw = None, GetBuffer = None\<rparr>"

definition Entry_WithFields :: "'v Entry \<Rightarrow> 'v Fields \<Rightarrow> 'v Entry" where
  "Entry_WithFields entry fs =
     entry\<lparr>GetData := fold (\<lambda>(k, v). AList.update k v) fs (GetData entry)\<rparr>"

definition Entry_WithField :: "'v Entry \<Rightarrow> string \<Rightarrow> 'v \<Rightarrow> 'v Entry" where
  "Entry_WithField entry key val = Entry_WithFields entry [(key, val)]"

definition Entry_WithError :: "'v golib \<Rightarrow> 'v Entry \<Rightarrow> string \<Rightarrow> 'v Entry" where
  "Entry_WithError lib entry err = Entry_WithField entry (ErrorKey lib) (error_value lib err)"

definition Entry_WithJsonRaw :: "'v Entry \<Rightarrow> string \<Rightarrow> 'v Entry" where
  "Entry_WithJsonRaw entry bs = entry\<lparr>GetJsonRaw := Some bs\<rparr>"

section \<open>The logger's pool\<close>

text \<open>
  \<open>sync.Pool\<close>: \<open>Get\<close> hands out any one of the pooled items or none at all, as the
  run-time system chooses. The choice is the argument \<open>pick\<close>: an index into the pool,
  or a number beyond it for "none".
\<close>

definition Pool_Get :: "nat \<Rightarrow> 'a list \<Rightarrow> 'a option \<times> 'a list" where
  "Pool_Get pick pool =
     (if pick < length pool then (Some (pool ! pick), take pick pool @ drop (Suc pick) pool)
      else (None, pool))"

definition Pool_Put :: "'a \<Rightarrow> 'a list \<Rightarrow> 'a list" where
  "Pool_Put x pool = x # pool"

definition newEntry :: "'v golib \<Rightarrow> nat \<Rightarrow> 'v Logger \<Rightarrow> 'v Entry \<times> 'v Logger" where
  "newEntry lib pick logger =
     (case Pool_Get pick (entryPool logger) of
        (Some entry, pool) \<Rightarrow> (entry, logger\<lparr>entryPool := pool\<rparr>)
      | (None, pool) \<Rightarrow> (NewEntry lib (moduleName logger), logger\<lparr>entryPool := pool\<rparr>))"

definition releaseEntry :: "'v Logger \<Rightarrow> 'v Entry \<Rightarrow> 'v Logger" where
  "releaseEntry logger entry = logger\<lparr>entryPool := Pool_Put entry (entryPool logger)\<rparr>"

section \<open>The terminal operation of an entry\<close>

text \<open>
  Modelled from the spec: sections 4.1 and 6 let the emission of a Fatal record be followed
  by the end of the process, and that of a Panic record by an unwind, in both cases after
  the record is written. The printing methods of the logger in the sources hold neither
  an exit nor a panic, so it is \<open>log\<close> that ends the call so, by the level it is given.
\<close>

datatype ending = Returns | Exits | Unwinds

definition log_ending :: "Level \<Rightarrow> ending" where
  "log_ending level =
     (if level = FatalLevel then Exits else if level = PanicLevel then Unwinds else Returns)"

text \<open>
  Modelled from the spec: the reset of section 3, "fields cleared, buffer cleared, JSON
  cleared". The module path is no field of the user's: a new entry holds it in its map
  at \<open>moduleKey\<close>, where the formatter reads it, and the cleared map is that of a new entry
  of the logger.
\<close>

definition Entry_reset :: "'v golib \<Rightarrow> 'v Logger \<Rightarrow> 'v Entry \<Rightarrow> 'v Entry" where
  "Entry_reset lib logger entry =
     entry\<lparr>GetData := GetData (NewEntry lib (moduleName logger)),
           GetJsonRaw := None, GetBuffer := None\<rparr>"

text \<open>
  Modelled from the spec: \<open>Entry.log\<close> (section 4.2) "sets Time=now, Level=level,
  Message=message; invokes the Formatter with the accumulated Fields and optional JSON
  payload; writes the resulting bytes to the Logger's output under lock; returns the Entry
  to the pool", the entry being reset before it is returned (section 3). The result is the
  entry as \<open>log\<close> leaves it, the logger with the entry in its pool, the outputs, and how
  the call ends.
\<close>

definition Entry_log ::
  "'v golib \<Rightarrow> 'v Logger \<Rightarrow> 'v Entry \<Rightarrow> int \<Rightarrow> Level \<Rightarrow> string \<Rightarrow> nat \<Rightarrow> outputs
   \<Rightarrow> panic + ('v Entry \<times> 'v Logger \<times> outputs \<times> ending)" where
  "Entry_log lib logger entry depth level msg now os =
     (let entry' = entry\<lparr>GetTime := now, GetLevel := level, GetMessage := msg\<rparr> in
      case TextFormatter_Format lib (Formatter logger) entry' depth of
        Inl p \<Rightarrow> Inl p
      | Inr bytes \<Rightarrow>
          (let cleared = Entry_reset lib logger entry'
           in Inr (cleared,
                   logger\<lparr>entryPool := Pool_Put cleared (entryPool logger)\<rparr>,
                   Write (Out logger) bytes os,
                   log_ending level)))"

section \<open>The logger's With methods\<close>

text \<open>
  Each method takes an entry from the pool, computes the entry it returns, and its
  deferred \<open>releaseEntry\<close> puts the entry it took back. The result is the returned entry
  and the logger after the call.
\<close>

definition Logger_WithJsonRaw ::
  "'v golib \<Rightarrow> nat \<Rightarrow> 'v Logger \<Rightarrow> string \<Rightarrow> 'v Entry \<times> 'v Logger" where
  "Logger_WithJsonRaw lib pick logger bs =
     (let (entry, l1) = newEntry lib pick logger
      in (Entry_WithJsonRaw entry bs, releaseEntry l1 entry))"

definition Logger_WithField ::
  "'v golib \<Rightarrow> nat \<Rightarrow> 'v Logger \<Rightarrow> string \<Rightarrow> 'v \<Rightarrow> 'v Entry \<times> 'v Logger" where
  "Logger_WithField lib pick logger key val =
     (let (entry, l1) = newEntry lib pick logger
      in (Entry_WithField entry key val, releaseEntry l1 entry))"

definition Logger_WithError ::
  "'v golib \<Rightarrow> nat \<Rightarrow> 'v Logger \<Rightarrow> string \<Rightarrow> 'v Entry \<times> 'v Logger" where
  "Logger_WithError lib pick logger err =
     (let (entry, l1) = newEntry lib pick logger
      in (Entry_WithError lib entry err, releaseEntry l1 entry))"

definition Logger_WithStruct ::
  "'v golib \<Rightarrow> nat \<Rightarrow> 'v Logger \<Rightarrow> 'v option \<Rightarrow> 'v Entry \<times> 'v Logger" where
  "Logger_WithStruct lib pick logger val =
     (case json_Marshal lib val of
        Inl err \<Rightarrow> Logger_WithError lib pick logger err
      | Inr bs \<Rightarrow> Logger_WithJsonRaw lib pick logger bs)"

section \<open>The logger's severity methods\<close>

text \<open>
  The three statements that every printing method of the logger runs:
  \<open>entry := logger.newEntry(); entry.log(0, level, message); logger.releaseEntry(entry)\<close>.
  \<open>now\<close> is the clock's reading, \<open>pick\<close> the pool's choice. The third statement
  releases the entry once more after \<open>log\<close> has returned it to the pool, as the sources
  have it; when \<open>log\<close> ends the process or unwinds, it is not reached. The result is the
  logger and the outputs when the call ends, and how it ends.
\<close>

definition log_and_release ::
  "'v golib \<Rightarrow> nat \<Rightarrow> nat \<Rightarrow> 'v Logger \<Rightarrow> outputs \<Rightarrow> Level \<Rightarrow> string
   \<Rightarrow> panic + ('v Logger \<times> outputs \<times> ending)" where
  "log_and_release lib now pick logger os level msg =
     (let (entry, l1) = newEntry lib pick logger in
      case Entry_log lib l1 entry 0 level msg now os of
        Inl p \<Rightarrow> Inl p
      | Inr (entry', l2, os', e) \<Rightarrow>
          (if e = Returns then Inr (releaseEntry l2 entry', os', Returns)
           else Inr (l2, os', e)))"

definition Logger_Debugf ::
  "'v golib \<Rightarrow> nat \<Rightarrow> nat \<Rightarrow> 'v Logger \<Rightarrow> outputs \<Rightarrow> string \<Rightarrow> 'v list
   \<Rightarrow> panic + ('v Logger \<times> outputs \<times> ending)" where
  "Logger_Debugf lib now pick logger os format as =
     (if Level logger \<ge> DebugLevel
      then log_and_release lib now pick logger os DebugLevel (fmt_Sprintf lib format as)
      else Inr (logger, os, Returns))"

definition Logger_Infof ::
  "'v golib \<Rightarrow> nat \<Rightarrow> nat \<Rightarrow> 'v Logger \<Rightarrow> outputs \<Rightarrow> string \<Rightarrow> 'v list
   \<Rightarrow> panic + ('v Logger \<times> outputs \<times> ending)" where
  "Logger_Infof lib now pick logger os format as =
     (if Level logger \<ge> InfoLevel
      then log_and_release lib now pick logger os InfoLevel (fmt_Sprintf lib format as)
      else Inr (logger, os, Returns))"

definition Logger_Printf ::
  "'v golib \<Rightarrow> nat \<Rightarrow> nat \<Rightarrow> 'v Logger \<Rightarrow> outputs \<Rightarrow> string \<Rightarrow> 'v list
   \<Rightarrow> panic + ('v Logger \<times> outputs \<times> ending)" where
  "Logger_Printf lib now pick logger os format as =
     log_and_release lib now pick logger os (Level logger) (fmt_Sprintf lib format as)"

definition Logger_Warnf ::
  "'v golib \<Rightarrow> nat \<Rightarrow> nat \<Rightarrow> 'v Logger \<Rightarrow> outputs \<Rightarrow> string \<Rightarrow> 'v list
   \<Rightarrow> panic + ('v Logger \<times> outputs \<times> ending)" where
  "Logger_Warnf lib now pick logger os format as =
     (if Level logger \<ge> WarnLevel
      then log_and_release lib now pick logger os WarnLevel (fmt_Sprintf lib format as)
      else Inr (logger, os, Returns))"

definition Logger_Warningf ::
  "'v golib \<Rightarrow> nat \<Rightarrow> nat \<Rightarrow> 'v Logger \<Rightarrow> outputs \<Rightarrow> string \<Rightarrow> 'v list
   \<Rightarrow> panic + ('v Logger \<times> outputs \<times> ending)" where
  "Logger_Warningf lib now pick logger os format as =
     (if Level logger \<ge> WarnLevel
      then log_and_release lib now pick logger os WarnLevel (fmt_Sprintf lib format as)
      else Inr (logger, os, Returns))"

definition Logger_Errorf ::
  "'v golib \<Rightarrow> nat \<Rightarrow> nat \<Rightarrow> 'v Logger \<Rightarrow> outputs \<Rightarrow> string \<Rightarrow> 'v list
   \<Rightarrow> panic + ('v Logger \<times> outputs \<times> ending)" where
  "Logger_Errorf lib now pick logger os format as =
     (if Level logger \<ge> ErrorLevel
      then log_and_release lib now pick logger os ErrorLevel (fmt_Sprintf lib format as)
      else Inr (logger, os, Returns))"

definition Logger_Fatalf ::
  "'v golib \<Rightarrow> nat \<Rightarrow> nat \<Rightarrow> 'v Logger \<Rightarrow> outputs \<Rightarrow> string \<Rightarrow> 'v list
   \<Rightarrow> panic + ('v Logger \<times> outputs \<times> ending)" where
  "Logger_Fatalf lib now pick logger os format as =
     (if Level logger \<ge> FatalLevel
      then log_and_release lib now pick logger os FatalLevel (fmt_Sprintf lib format as)
      else Inr (logger, os, Returns))"

definition Logger_Panicf ::
  "'v golib \<Rightarrow> nat \<Rightarrow> nat \<Rightarrow> 'v Logger \<Rightarrow> outputs \<Rightarrow> string \<Rightarrow> 'v list
   \<Rightarrow> panic + ('v Logger \<times> outputs \<times> ending)" where
  "Logger_Panicf lib now pick logger os format as =
     (if Level logger \<ge> PanicLevel
      then log_and_release lib now pick logger os PanicLevel (fmt_Sprintf lib format as)
      else Inr (logger, os, Returns))"

definition Logger_Debug ::
  "'v golib \<Rightarrow> nat \<Rightarrow> nat \<Rightarrow> 'v Logger \<Rightarrow> outputs \<Rightarrow> 'v list
   \<Rightarrow> panic + ('v Logger \<times> outputs \<times> ending)" where
  "Logger_Debug lib now pick logger os as =
     (if Level logger \<ge> DebugLevel
      then log_and_release lib now pick logger os DebugLevel (fmt_Sprint lib as)
      else Inr (logger, os, Returns))"

definition Logger_Info ::
  "'v golib \<Rightarrow> nat \<Rightarrow> nat \<Rightarrow> 'v Logger \<Rightarrow> outputs \<Rightarrow> 'v list
   \<Rightarrow> panic + ('v Logger \<times> outputs \<times> ending)" where
  "Logger_Info lib now pick logger os as =
     (if Level logger \<ge> InfoLevel
      then log_and_release lib now pick logger os InfoLevel (fmt_Sprint lib as)
      else Inr (logger, os, Returns))"

definition Logger_Print ::
  "'v golib \<Rightarrow> nat \<Rightarrow> nat \<Rightarrow> 'v Logger \<Rightarrow> outputs \<Rightarrow> 'v list
   \<Rightarrow> panic + ('v Logger \<times> outputs \<times> ending)" where
  "Logger_Print lib now pick logger os as =
     log_and_release lib now pick logger os (Level logger) (fmt_Sprint lib as)"

definition Logger_Warn ::
  "'v golib \<Rightarrow> nat \<Rightarrow> nat \<Rightarrow> 'v Logger \<Rightarrow> outputs \<Rightarrow> 'v list
   \<Rightarrow> panic + ('v Logger \<times> outputs \<times> ending)" where
  "Logger_Warn lib now pick logger os as =
     (if Level logger \<ge> WarnLevel
      then log_and_release lib now pick logger os WarnLevel (fmt_Sprint lib as)
      else Inr (logger, os, Returns))"

definition Logger_Error ::
  "'v golib \<Rightarrow> nat \<Rightarrow> nat \<Rightarrow> 'v Logger \<Rightarrow> outputs \<Rightarrow> 'v list
   \<Rightarrow> panic + ('v Logger \<times> outputs \<times> ending)" where
  "Logger_Error lib now pick logger os as =
     (if Level logger \<ge> ErrorLevel
      then log_and_release lib now pick logger os ErrorLevel (fmt_Sprint lib as)
      else Inr (logger, os, Returns))"

definition Logger_Fatal ::
  "'v golib \<Rightarrow> nat \<Rightarrow> nat \<Rightarrow> 'v Logger \<Rightarrow> outputs \<Rightarrow> 'v list
   \<Rightarrow> panic + ('v Logger \<times> outputs \<times> ending)" where
  "Logger_Fatal lib now pick logger os as =
     (if Level logger \<ge> FatalLevel
      then log_and_release lib now pick logger os FatalLevel (fmt_Sprint lib as)
      else Inr (logger, os, Returns))"

definition Logger_Panic ::
  "'v golib \<Rightarrow> nat \<Rightarrow> nat \<Rightarrow> 'v Logger \<Rightarrow> outputs \<Rightarrow> 'v list
   \<Rightarrow> panic + ('v Logger \<times> outputs \<times> ending)" where
  "Logger_Panic lib now pick logger os as =
     (if Level logger \<ge> PanicLevel
      then log_and_release lib now pick logger os PanicLevel (fmt_Sprint lib as)
      else Inr (logger, os, Returns))"

definition Logger_Debugln ::
  "'v golib \<Rightarrow> nat \<Rightarrow> nat \<Rightarrow> 'v Logger \<Rightarrow> outputs \<Rightarrow> 'v list
   \<Rightarrow> panic + ('v Logger \<times> outputs \<times> ending)" where
  "Logger_Debugln lib now pick logger os as =
     (if Level logger \<ge> DebugLevel
      then log_and_release lib now pick logger os DebugLevel (fmt_Sprintln lib as)
      else Inr (logger, os, Returns))"

definition Logger_Infoln ::
  "'v golib \<Rightarrow> nat \<Rightarrow> nat \<Rightarrow> 'v Logger \<Rightarrow> outputs \<Rightarrow> 'v list
   \<Rightarrow> panic + ('v Logger \<times> outputs \<times> ending)" where
  "Logger_Infoln lib now pick logger os as =
     (if Level logger \<ge> InfoLevel
      then log_and_release lib now pick logger os InfoLevel (fmt_Sprintln lib as)
      else Inr (logger, os, Returns))"

definition Logger_Println ::
  "'v golib \<Rightarrow> nat \<Rightarrow> nat \<Rightarrow> 'v Logger \<Rightarrow> outputs \<Rightarrow> 'v list
   \<Rightarrow> panic + ('v Logger \<times> outputs \<times> ending)" where
  "Logger_Println lib now pick logger os as =
     log_and_release lib now pick logger os (Level logger) (fmt_Sprintln lib as)"

definition Logger_Warnln ::
  "'v golib \<Rightarrow> nat \<Rightarrow> nat \<Rightarrow> 'v Logger \<Rightarrow> outputs \<Rightarrow> 'v list
   \<Rightarrow> panic + ('v Logger \<times> outputs \<times> ending)" where
  "Logger_Warnln lib now pick logger os as =
     (if Level logger \<ge> WarnLevel
      then log_and_release lib now pick logger os WarnLevel (fmt_Sprintln lib as)
      else Inr (logger, os, Returns))"

definition Logger_Warningln ::
  "'v golib \<Rightarrow> nat \<Rightarrow> nat \<Rightarrow> 'v Logger \<Rightarrow> outputs \<Rightarrow> 'v list
   \<Rightarrow> panic + ('v Logger \<times> outputs \<times> ending)" where
  "Logger_Warningln lib now pick logger os as =
     (if Level logger \<ge> WarnLevel
      then log_and_release lib now pick logger os WarnLevel (fmt_Sprintln lib as)
      else Inr (logger, os, Returns))"

definition Logger_Errorln ::
  "'v golib \<Rightarrow> nat \<Rightarrow> nat \<Rightarrow> 'v Logger \<Rightarrow> outputs \<Rightarrow> 'v list
   \<Rightarrow> panic + ('v Logger \<times> outputs \<times> ending)" where
  "Logger_Errorln lib now pick logger os as =
     (if Level logger \<ge> ErrorLevel
      then log_and_release lib now pick logger os ErrorLevel (fmt_Sprintln lib as)
      else Inr (logger, os, Returns))"

definition Logger_Fatalln ::
  "'v golib \<Rightarrow> nat \<Rightarrow> nat \<Rightarrow> 'v Logger \<Rightarrow> outputs \<Rightarrow> 'v list
   \<Rightarrow> panic + ('v Logger \<times> outputs \<times> ending)" where
  "Logger_Fatalln lib now pick logger os as =
     (if Level logger \<ge> FatalLevel
      then log_and_release lib now pick logger os FatalLevel (fmt_Sprintln lib as)
      else Inr (logger, os, Returns))"

definition Logger_Panicln ::
  "'v golib \<Rightarrow> nat \<Rightarrow> nat \<Rightarrow> 'v Logger \<Rightarrow> outputs \<Rightarrow> 'v list
   \<Rightarrow> panic + ('v Logger \<times> outputs \<times> ending)" where
  "Logger_Panicln lib now pick logger os as =
     (if Level logger \<ge> PanicLevel
      then log_and_release lib now pick logger os PanicLevel (fmt_Sprintln lib as)
      else Inr (logger, os, Returns))"

section \<open>The tracer\<close>

record 'v TraceBlock =
  Fields :: "'v Fields"
  Obj :: "'v option"
  args :: "'v list"
  color :: int

record 'v TraceChain =
  blocks :: "'v TraceBlock list"
  chain_color :: int

text \<open>
  The package's variables: the chains by channel index, the palette with its used flags,
  the standard logger (\<open>None\<close> until \<open>StandardLogger\<close> creates it) and what the writers
  have received.
\<close>

record 'v pkg =
  chains :: "int \<rightharpoonup> 'v TraceChain"
  colors :: "int \<rightharpoonup> bool"
  std :: "'v Logger option"
  outs :: outputs

text \<open>The state after the package's \<open>init\<close> functions.\<close>

definition init :: "'v pkg" where
  "init =
     \<lparr>chains = Map.empty,
      colors = [red \<mapsto> False, green \<mapsto> False, yellow \<mapsto> False, blue \<mapsto> False],
      std = None,
      outs = (\<lambda>w. [])\<rparr>"

definition newTraceChain :: "int \<Rightarrow> 'v TraceChain" where
  "newTraceChain c = \<lparr>blocks = [], chain_color = c\<rparr>"

definition addBlock :: "'v TraceChain \<Rightarrow> 'v TraceBlock \<Rightarrow> 'v TraceChain" where
  "addBlock tc block = tc\<lparr>blocks := blocks tc @ [block]\<rparr>"

definition newTraceBlock :: "int \<Rightarrow> 'v list \<Rightarrow> 'v option \<Rightarrow> 'v Fields \<Rightarrow> 'v TraceBlock" where
  "newTraceBlock c as obj fs = \<lparr>Fields = fs, Obj = obj, args = as, color = c\<rparr>"

text \<open>
  The loop of \<open>generateNewChain\<close>: \<open>for color, used := range colors\<close>. Go visits the keys
  of a map in an order it does not specify; the order of one run of the loop is the list
  \<open>order\<close>. The body has no \<open>break\<close>: every key whose flag is false is flagged and
  becomes the chain's color in turn.
\<close>

fun rangeColors ::
  "int list \<Rightarrow> (int \<rightharpoonup> bool) \<Rightarrow> 'v TraceChain \<Rightarrow> (int \<rightharpoonup> bool) \<times> 'v TraceChain" where
  "rangeColors [] cs chain = (cs, chain)"
| "rangeColors (c # order) cs chain =
     (if cs c = Some False
      then rangeColors order (cs(c \<mapsto> True)) (chain\<lparr>chain_color := c\<rparr>)
      else rangeColors order cs chain)"

definition generateNewChain :: "int list \<Rightarrow> 'v pkg \<Rightarrow> 'v TraceChain \<times> 'v pkg" where
  "generateNewChain order s =
     (let (cs, chain) = rangeColors order (colors s) (newTraceChain nocolor)
      in (chain, s\<lparr>colors := cs\<rparr>))"

definition Trace ::
  "int list \<Rightarrow> int \<Rightarrow> 'v Fields \<Rightarrow> 'v option \<Rightarrow> 'v list \<Rightarrow> 'v pkg \<Rightarrow> 'v pkg" where
  "Trace order index fs obj as s =
     (let (chain, s1) =
            (case chains s index of
               Some chain \<Rightarrow> (chain, s)
             | None \<Rightarrow>
                 (let (chain, s') = generateNewChain order s
                  in (chain, s'\<lparr>chains := (chains s')(index \<mapsto> chain)\<rparr>)));
          block = newTraceBlock (chain_color chain) as obj fs
      in s1\<lparr>chains := (chains s1)(index \<mapsto> addBlock chain block)\<rparr>)"

definition StandardLogger :: "'v pkg \<Rightarrow> 'v Logger \<times> 'v pkg" where
  "StandardLogger s =
     (case std s of
        Some logger \<Rightarrow> (logger, s)
      | None \<Rightarrow> (let logger = New [] in (logger, s\<lparr>std := Some logger\<rparr>)))"

text \<open>
  The loop over \<open>block.Fields\<close> in \<open>printBlock\<close>, a \<open>range\<close> over a map: Go visits
  the keys in an order it does not specify, which can differ from one run of the loop to
  the next even on the same map. The order of one run is the list \<open>order\<close>; a key that
  the map does not hold is not visited. A value longer than 128 bytes is cut to its first
  128 bytes and three dots.
\<close>

fun blockFieldLines :: "'v golib \<Rightarrow> int \<Rightarrow> 'v Fields \<Rightarrow> string list \<Rightarrow> string" where
  "blockFieldLines lib c fs [] = []"
| "blockFieldLines lib c fs (k # order) =
     (case map_of fs k of
        None \<Rightarrow> blockFieldLines lib c fs order
      | Some v \<Rightarrow>
          (let value0 = fmt_plus_v lib (Some v);
               value = (if length value0 > 128 then take 128 value0 @ ''...'' else value0)
           in NL @ ''     '' @ ESC @ ''['' @ fmt_d lib c @ ''m- '' @ fmt_pad lib 8 k @ '' = ''
              @ value @ '' '' @ ESC @ ''[0m'' @ blockFieldLines lib c fs order))"

text \<open>
  The text that \<open>printBlock\<close> writes for a block whose payload serialises to \<open>jsonRaw\<close>.
  \<open>json.Marshal\<close> returns a non-nil slice when it succeeds, so the test
  \<open>jsonRaw != nil\<close> holds.
\<close>

definition blockText :: "'v golib \<Rightarrow> string list \<Rightarrow> 'v TraceBlock \<Rightarrow> string \<Rightarrow> string" where
  "blockText lib order block jsonRaw =
     ESC @ ''['' @ fmt_d lib (color block) @ ''m msg: '' @ fmt_pad lib 44 (fmt_Sprint lib (args block))
     @ '' '' @ ESC @ ''[0m''
     @ blockFieldLines lib (color block) (Fields block) order
     @ ESC @ ''['' @ fmt_d lib (color block) @ ''m '' @ NL @ prettyJSON lib jsonRaw @ '' '' @ ESC @ ''[0m''
     @ NL @ ''---------------------------------------------------'' @ NL"

text \<open>
  \<open>printBlock\<close>: a payload that \<open>json.Marshal\<close> rejects makes it panic with the error,
  before anything is written and before the standard logger is asked for.
\<close>

definition printBlock ::
  "'v golib \<Rightarrow> string list \<Rightarrow> 'v TraceBlock \<Rightarrow> 'v pkg \<Rightarrow> panic + 'v pkg" where
  "printBlock lib order block s =
     (case json_Marshal lib (Obj block) of
        Inl err \<Rightarrow> Inl (PanicErr err)
      | Inr jsonRaw \<Rightarrow>
          (let (logger, s1) = StandardLogger s
           in Inr (s1\<lparr>outs := Write (Out logger) (blockText lib order block jsonRaw) (outs s1)\<rparr>)))"

text \<open>
  The loop of \<open>TraceEnd\<close> over the chain's blocks, first to last. \<open>orders n\<close> is the order
  in which the fields of the block at position \<open>n\<close> are visited in this flush.
\<close>

fun printBlocks ::
  "'v golib \<Rightarrow> (nat \<Rightarrow> string list) \<Rightarrow> nat \<Rightarrow> 'v TraceBlock list \<Rightarrow> 'v pkg \<Rightarrow> panic + 'v pkg" where
  "printBlocks lib orders n [] s = Inr s"
| "printBlocks lib orders n (block # rest) s =
     (case printBlock lib (orders n) block s of
        Inl p \<Rightarrow> Inl p
      | Inr s1 \<Rightarrow> printBlocks lib orders (Suc n) rest s1)"

definition TraceEnd :: "'v golib \<Rightarrow> (nat \<Rightarrow> string list) \<Rightarrow> int \<Rightarrow> 'v pkg \<Rightarrow> panic + 'v pkg" where
  "TraceEnd lib orders index s =
     (case chains s index of
        None \<Rightarrow> Inr s
      | Some chain \<Rightarrow> printBlocks lib orders 0 (blocks chain) s)"

section \<open>The package-level With functions\<close>

text \<open>
  The functions of exported.go that work on the standard logger. The logger is shared, so
  its state after the call is stored back.
\<close>

definition WithError :: "'v golib \<Rightarrow> nat \<Rightarrow> 'v pkg \<Rightarrow> string \<Rightarrow> 'v Entry \<times> 'v pkg" where
  "WithError lib pick s err =
     (let (logger, s1) = StandardLogger s;
          (entry, logger') = Logger_WithField lib pick logger (ErrorKey lib) (error_value lib err)
      in (entry, s1\<lparr>std := Some logger'\<rparr>))"

definition WithJsonRaw :: "'v golib \<Rightarrow> nat \<Rightarrow> 'v pkg \<Rightarrow> string \<Rightarrow> 'v Entry \<times> 'v pkg" where
  "WithJsonRaw lib pick s bs =
     (let (logger, s1) = StandardLogger s;
          (entry, logger') = Logger_WithJsonRaw lib pick logger bs
      in (entry, s1\<lparr>std := Some logger'\<rparr>))"

definition WithStruct :: "'v golib \<Rightarrow> nat \<Rightarrow> 'v pkg \<Rightarrow> 'v option \<Rightarrow> 'v Entry \<times> 'v pkg" where
  "WithStruct lib pick s val =
     (case json_Marshal lib val of
        Inl err \<Rightarrow> WithError lib pick s err
      | Inr bs \<Rightarrow> WithJsonRaw lib pick s bs)"

section \<open>Notions used in the statements\<close>

text \<open>
  A call of \<open>Trace\<close>: the order in which its loop over the palette visits the colors, the
  channel index, the fields, the payload and the arguments. \<open>Traces\<close> runs a list of
  calls, first to last.
\<close>

type_synonym 'v trace_call = "int list \<times> int \<times> 'v Fields \<times> 'v option \<times> 'v list"

definition call_index :: "'v trace_call \<Rightarrow> int" where
  "call_index c = (case c of (order, index, fs, obj, as) \<Rightarrow> index)"

definition call_obj :: "'v trace_call \<Rightarrow> 'v option" where
  "call_obj c = (case c of (order, index, fs, obj, as) \<Rightarrow> obj)"

definition call_block :: "int \<Rightarrow> 'v trace_call \<Rightarrow> 'v TraceBlock" where
  "call_block col c = (case c of (order, index, fs, obj, as) \<Rightarrow> newTraceBlock col as obj fs)"

definition Traces :: "'v trace_call list \<Rightarrow> 'v pkg \<Rightarrow> 'v pkg" where
  "Traces cs s = foldl (\<lambda>s (order, index, fs, obj, as). Trace order index fs obj as s) s cs"

definition serialises :: "'v golib \<Rightarrow> 'v option \<Rightarrow> bool" where
  "serialises lib obj = (case json_Marshal lib obj of Inr j \<Rightarrow> True | Inl err \<Rightarrow> False)"

text \<open>
  The text written for a block whose payload serialises, its fields visited in \<open>order\<close>.
\<close>

definition rendered_block :: "'v golib \<Rightarrow> string list \<Rightarrow> 'v TraceBlock \<Rightarrow> string" where
  "rendered_block lib order block =
     (case json_Marshal lib (Obj block) of
        Inr jsonRaw \<Rightarrow> blockText lib order block jsonRaw
      | Inl err \<Rightarrow> [])"

text \<open>
  The texts of the blocks that the calls \<open>cs\<close> append to channel \<open>i\<close>, in the order of
  the calls; \<open>col\<close> is the color of the channel's chain, and \<open>orders n\<close> the order in
  which the fields of the channel's block at position \<open>n\<close> are visited.
\<close>

definition channel_texts ::
  "'v golib \<Rightarrow> (nat \<Rightarrow> string list) \<Rightarrow> int \<Rightarrow> int \<Rightarrow> 'v trace_call list \<Rightarrow> string list" where
  "channel_texts lib orders col i cs =
     map (\<lambda>(n, b). rendered_block lib (orders n) b)
       (enumerate 0 (map (call_block col) (filter (\<lambda>c. call_index c = i) cs)))"

text \<open>The writer of the standard logger, created on demand.\<close>

definition std_writer :: "'v pkg \<Rightarrow> writer" where
  "std_writer s = Out (fst (StandardLogger s))"

text \<open>
  The record that a printing call finalises: the entry taken from the pool with time,
  level and message set.
\<close>

definition record_at ::
  "'v golib \<Rightarrow> nat \<Rightarrow> nat \<Rightarrow> 'v Logger \<Rightarrow> Level \<Rightarrow> string \<Rightarrow> 'v Entry" where
  "record_at lib now pick logger level msg =
     (fst (newEntry lib pick logger))\<lparr>GetTime := now, GetLevel := level, GetMessage := msg\<rparr>"

text \<open>
  A call at severity \<open>S\<close> with message \<open>msg\<close> has the result \<open>res\<close>: when the
  threshold admits \<open>S\<close>, one more write on the logger's output, of the rendered record;
  otherwise the logger and every output as before, and the call returns.
\<close>

definition writes_iff_enabled ::
  "'v golib \<Rightarrow> nat \<Rightarrow> nat \<Rightarrow> 'v Logger \<Rightarrow> outputs \<Rightarrow> Level \<Rightarrow> string
   \<Rightarrow> panic + ('v Logger \<times> outputs \<times> ending) \<Rightarrow> bool" where
  "writes_iff_enabled lib now pick logger os S msg res =
     (if Level logger \<ge> S
      then \<exists>bytes l' e.
             TextFormatter_Format lib (Formatter logger) (record_at lib now pick logger S msg) 0
               = Inr bytes
             \<and> res = Inr (l', Write (Out logger) bytes os, e)
      else res = Inr (logger, os, Returns))"















section \<open>An instance of the library for the examples\<close>

text \<open>
  The examples need concrete values and a concrete library. The values are strings,
  integers, errors and a channel; \<open>encoding/json\<close> rejects a channel. The functions
  below follow Go's on these values as far as the examples use them: \<open>Sprint\<close> puts a
  space between two operands when neither is a string, \<open>Sprintln\<close> between any two,
  \<open>Sprintf\<close> replaces a verb by the text of the next argument, and indenting the JSON of
  a scalar changes nothing.
\<close>

datatype gval = GStr string | GInt int | GErr string | GChan

fun dec :: "nat \<Rightarrow> string" where
  "dec n = (if n < 10 then [char_of (48 + n)] else dec (n div 10) @ [char_of (48 + n mod 10)])"

definition itoa :: "int \<Rightarrow> string" where
  "itoa i = (if i < 0 then ''-'' @ dec (nat (- i)) else dec (nat i))"

fun show_gval :: "gval option \<Rightarrow> string" where
  "show_gval None = ''<nil>''"
| "show_gval (Some (GStr s)) = s"
| "show_gval (Some (GInt i)) = itoa i"
| "show_gval (Some (GErr e)) = e"
| "show_gval (Some GChan) = ''0xc000012345''"

fun is_GStr :: "gval \<Rightarrow> bool" where
  "is_GStr (GStr s) = True"
| "is_GStr v = False"

fun sprint :: "gval list \<Rightarrow> string" where
  "sprint [] = []"
| "sprint [x] = show_gval (Some x)"
| "sprint (x # y # r) =
     show_gval (Some x) @ (if is_GStr x \<or> is_GStr y then [] else '' '') @ sprint (y # r)"

fun sprintln :: "gval list \<Rightarrow> string" where
  "sprintln [] = NL"
| "sprintln [x] = show_gval (Some x) @ NL"
| "sprintln (x # y # r) = show_gval (Some x) @ '' '' @ sprintln (y # r)"

fun sprintf :: "string \<Rightarrow> gval list \<Rightarrow> string" where
  "sprintf [] as = []"
| "sprintf [c] as = [c]"
| "sprintf (c # v # rest) as =
     (if c \<noteq> CHR ''%'' then c # sprintf (v # rest) as
      else if v = CHR ''%'' then CHR ''%'' # sprintf rest as
      else case as of
        [] \<Rightarrow> ''%!'' @ [v] @ ''(MISSING)'' @ sprintf rest []
      | a # as' \<Rightarrow> show_gval (Some a) @ sprintf rest as')"

definition marshal :: "gval option \<Rightarrow> string + string" where
  "marshal v =
     (case v of
        None \<Rightarrow> Inr ''null''
      | Some (GStr s) \<Rightarrow> Inr ([CHR 0x22] @ s @ [CHR 0x22])
      | Some (GInt i) \<Rightarrow> Inr (itoa i)
      | Some (GErr e) \<Rightarrow> Inr ''{}''
      | Some GChan \<Rightarrow> Inl ''json: unsupported type: chan int'')"

definition sample_lib :: "gval golib" where
  "sample_lib =
     \<lparr>fmt_Sprint = sprint, fmt_Sprintln = sprintln, fmt_Sprintf = sprintf,
      fmt_plus_v = show_gval, fmt_s = show_gval, fmt_d = itoa,
      fmt_04d = (\<lambda>i. replicate (4 - length (itoa i)) (CHR ''0'') @ itoa i),
      fmt_pad = (\<lambda>n s. s @ replicate (n - length s) (CHR '' '')),
      strings_ToUpper = map (\<lambda>c. if CHR ''a'' \<le> c \<and> c \<le> CHR ''z''
                                   then char_of (of_char c - (32::nat)) else c),
      json_Marshal = marshal,
      json_Indent = (\<lambda>src prefix indent. Inr src),
      time_Format = (\<lambda>t layout. dec t),
      error_value = GErr, string_value = GStr,
      moduleKey = ''module'', ErrorKey = ''error'',
      DefaultTimestampFormat = ''2006-01-02T15:04:05Z07:00'',
      prefixFieldClashes = (\<lambda>data. data),
      isTerminal = False, runtime_GOOS = ''linux'', miniTS = 0\<rparr>"




text \<open>A logger whose threshold is Warn.\<close>

definition warn_logger :: "gval Logger" where
  "warn_logger = SetLevel (New []) WarnLevel"

section \<open>Properties of the prefix parser\<close>

lemmas Level_defs =
  PanicLevel_def FatalLevel_def ErrorLevel_def WarnLevel_def InfoLevel_def DebugLevel_def


text \<open>
  C8. \<open>PrefixStrCmp.Parse\<close> maps every string that starts with one of the six recognized
  7-character prefixes to the level of that prefix with a nil error, and every other
  string of at least 7 bytes to Debug, the most verbose level, with a nil error.
\<close>

theorem PrefixStrCmp_Parse_levels:
  "PrefixStrCmp_Parse (''[INFO] '' @ rest) = Inr (InfoLevel, None)
   \<and> PrefixStrCmp_Parse (''[WARN] '' @ rest) = Inr (WarnLevel, None)
   \<and> PrefixStrCmp_Parse (''[ERROR]'' @ rest) = Inr (ErrorLevel, None)
   \<and> PrefixStrCmp_Parse (''[FATAL]'' @ rest) = Inr (FatalLevel, None)
   \<and> PrefixStrCmp_Parse (''[DEBUG]'' @ rest) = Inr (DebugLevel, None)
   \<and> PrefixStrCmp_Parse (''[PANIC]'' @ rest) = Inr (PanicLevel, None)
   \<and> (7 \<le> length str \<and> take 7 str \<notin> fst ` set recognized_prefixes
        \<longrightarrow> PrefixStrCmp_Parse str = Inr (DebugLevel, None))
   \<and> (\<forall>l \<in> snd ` set recognized_prefixes. l \<le> DebugLevel)"
  by (simp add: PrefixStrCmp_Parse_def recognized_prefixes_def Level_defs)

theorem PrefixStrCmp_Parse_levels_witness:
  "PrefixStrCmp_Parse ''[WARN] disk almost full'' = Inr (WarnLevel, None)
   \<and> 7 \<le> length ''hello world''
   \<and> take 7 ''hello world'' \<notin> fst ` set recognized_prefixes
   \<and> PrefixStrCmp_Parse ''hello world'' = Inr (DebugLevel, None)
   \<and> InfoLevel \<in> snd ` set recognized_prefixes \<and> InfoLevel \<le> DebugLevel"
  using PrefixStrCmp_Parse_levels [of "''disk almost full''" "''hello world''"]
  by (simp add: recognized_prefixes_def Level_defs)

text \<open>
  C10. For every input shorter than 7 bytes the slice \<open>str[:7]\<close> is out of range and
  \<open>Parse\<close> panics: it returns neither a level nor an error.
\<close>

theorem PrefixStrCmp_Parse_short_panics:
  "length str < 7 \<Longrightarrow> PrefixStrCmp_Parse str = Inl SliceBoundsOutOfRange"
  by (simp add: PrefixStrCmp_Parse_def)

theorem PrefixStrCmp_Parse_short_panics_witness:
  "length ''[INFO]'' < 7 \<and> PrefixStrCmp_Parse ''[INFO]'' = Inl SliceBoundsOutOfRange"
  using PrefixStrCmp_Parse_short_panics [of "''[INFO]''"] by simp

section \<open>Properties of the text formatter\<close>

lemma tripHeadAndTail_128:
  assumes "128 < length src"
  shows "tripHeadAndTail src 128
         = Inr (take 64 src @ ''...'' @ take 63 (drop (length src - 64) src))"
proof -
  have a: "\<not> int (length src) \<le> 128" using assms by simp
  have h: "slice src 0 64 = Inr (take 64 src)"
    using assms by (simp add: slice_def)
  have n: "nat (int (length src) - 64) = length src - 64" by simp
  have t: "slice src (int (length src) - 64) (int (length src) - 1)
           = Inr (take 63 (drop (length src - 64) src))"
    using assms by (simp add: slice_def n)
  show ?thesis
    using a h t by (simp add: tripHeadAndTail_def Let_def)
qed

lemma tripHeadAndTail_128_total: "\<exists>t. tripHeadAndTail src 128 = Inr t"
proof (cases "128 < length src")
  case True
  then show ?thesis by (simp add: tripHeadAndTail_128)
next
  case False
  then show ?thesis by (simp add: tripHeadAndTail_def)
qed

lemma plainFieldLine_total: "\<exists>line. plainFieldLine lib data key = Inr line"
  using tripHeadAndTail_128_total [of "fmt_plus_v lib (map_of data key)"]
  by (auto simp: plainFieldLine_def Let_def)

lemma coloredFieldLine_total: "\<exists>line. coloredFieldLine lib data key = Inr line"
  using tripHeadAndTail_128_total [of "fmt_plus_v lib (map_of data key)"]
  by (auto simp: coloredFieldLine_def Let_def)

lemma plainFieldLines_total: "\<exists>ls. plainFieldLines lib data keys = Inr ls"
proof (induction keys)
  case Nil
  then show ?case by simp
next
  case (Cons key keys)
  then show ?case
    using plainFieldLine_total [of lib data key] by auto
qed

lemma coloredFieldLines_total: "\<exists>ls. coloredFieldLines lib data keys = Inr ls"
proof (induction keys)
  case Nil
  then show ?case by simp
next
  case (Cons key keys)
  then show ?case
    using coloredFieldLine_total [of lib data key] by auto
qed

lemma printColored_total: "\<exists>b. printColored lib f entry data keys tf = Inr b"
  using coloredFieldLines_total [of lib data keys]
  by (auto simp: printColored_def Let_def)

lemma TextFormatter_Format_total: "\<exists>bytes. TextFormatter_Format lib f entry depth = Inr bytes"
proof -
  let ?keys = "if \<not> DisableSorting f then sort (map fst (GetData entry)) else map fst (GetData entry)"
  let ?data = "prefixFieldClashes lib (GetData entry)"
  let ?tf = "if TimestampFormat f = [] then DefaultTimestampFormat lib else TimestampFormat f"
  obtain b where b: "printColored lib f entry ?data ?keys ?tf = Inr b"
    using printColored_total by blast
  obtain ls where ls: "plainFieldLines lib ?data ?keys = Inr ls"
    using plainFieldLines_total by blast
  show ?thesis
    using b ls by (simp add: TextFormatter_Format_def Let_def)
qed







lemma digit_5: "char_of (53 :: nat) = CHR ''5''"
  by code_simp



section \<open>Properties of the tracer\<close>

lemma rangeColors_colors:
  "fst (rangeColors order cs chain) c
   = (if c \<in> set order \<and> cs c = Some False then Some True else cs c)"
  by (induction order arbitrary: cs chain) auto

lemma rangeColors_no_unused:
  "\<forall>c \<in> set order. cs c \<noteq> Some False \<Longrightarrow> rangeColors order cs chain = (cs, chain)"
  by (induction order arbitrary: cs chain) auto

lemma rangeColors_blocks: "blocks (snd (rangeColors order cs chain)) = blocks chain"
  by (induction order arbitrary: cs chain) auto

lemma generateNewChain_colors:
  "colors (snd (generateNewChain order s)) c
   = (if c \<in> set order \<and> colors s c = Some False then Some True else colors s c)"
  by (simp add: generateNewChain_def case_prod_beta rangeColors_colors)

lemma generateNewChain_exhausted:
  assumes "\<forall>c. colors s c \<noteq> Some False"
  shows "generateNewChain order s = (newTraceChain nocolor, s)"
proof -
  have "rangeColors order (colors s) (newTraceChain nocolor :: 'a TraceChain)
        = (colors s, newTraceChain nocolor)"
    using assms by (intro rangeColors_no_unused) simp
  then show ?thesis
    by (simp add: generateNewChain_def)
qed

lemma Trace_new_chain:
  assumes "chains s i = None"
  shows "colors (Trace order i fs obj as s) = colors (snd (generateNewChain order s))"
    and "map_option chain_color (chains (Trace order i fs obj as s) i)
         = Some (chain_color (fst (generateNewChain order s)))"
  using assms
  by (auto simp: Trace_def addBlock_def Let_def split: prod.splits)

lemma Trace_other: "j \<noteq> i \<Longrightarrow> chains (Trace order i fs obj as s) j = chains s j"
  by (auto simp: Trace_def generateNewChain_def Let_def split: option.splits prod.splits)

lemma init_palette: "colors (init :: 'v pkg) c = (if c \<in> {red, green, yellow, blue} then Some False else None)"
  by (simp add: init_def)

text \<open>
  C3. The code does not assign distinct colors to the first four chains. The loop of
  \<open>generateNewChain\<close> has no \<open>break\<close>: whatever the order in which it visits the
  palette, the first chain flags all four colors as used, and the second and the third
  chain, created on two further channels, both get the unset color \<open>nocolor\<close>, which is
  no color of the palette.
\<close>

theorem first_chain_claims_whole_palette:
  assumes "set order0 = {red, green, yellow, blue}"
  shows "let s1 = Trace order0 0 fs0 obj0 as0 init;
             s2 = Trace order1 1 fs1 obj1 as1 s1;
             s3 = Trace order2 2 fs2 obj2 as2 s2
         in colors s1 red = Some True \<and> colors s1 green = Some True
            \<and> colors s1 yellow = Some True \<and> colors s1 blue = Some True
            \<and> map_option chain_color (chains s3 1) = Some nocolor
            \<and> map_option chain_color (chains s3 2) = Some nocolor
            \<and> nocolor \<notin> {red, green, yellow, blue}"
proof -
  define s1 :: "'a pkg" where "s1 = Trace order0 0 fs0 obj0 as0 init"
  define s2 where "s2 = Trace order1 1 fs1 obj1 as1 s1"
  define s3 where "s3 = Trace order2 2 fs2 obj2 as2 s2"
  have c1: "colors s1 c = (if c \<in> {red, green, yellow, blue} then Some True else None)" for c
    using assms
    by (simp add: s1_def Trace_new_chain(1) init_def generateNewChain_colors)
  have n1: "chains s1 1 = None" and n12: "chains s1 2 = None"
    by (simp_all add: s1_def Trace_other init_def)
  have e1: "\<forall>c. colors s1 c \<noteq> Some False"
    by (simp add: c1)
  have g2: "generateNewChain order1 s1 = (newTraceChain nocolor, s1)"
    using e1 by (rule generateNewChain_exhausted)
  have k2: "map_option chain_color (chains s2 1) = Some nocolor"
    using Trace_new_chain(2) [OF n1, of order1 fs1 obj1 as1] g2
    by (simp add: s2_def newTraceChain_def)
  have c2: "colors s2 = colors s1"
    using Trace_new_chain(1) [OF n1, of order1 fs1 obj1 as1] g2 by (simp add: s2_def)
  have n2: "chains s2 2 = None"
    using n12 by (simp add: s2_def Trace_other)
  have e2: "\<forall>c. colors s2 c \<noteq> Some False"
    using e1 c2 by simp
  have g3: "generateNewChain order2 s2 = (newTraceChain nocolor, s2)"
    using e2 by (rule generateNewChain_exhausted)
  have k3: "map_option chain_color (chains s3 2) = Some nocolor"
    using Trace_new_chain(2) [OF n2, of order2 fs2 obj2 as2] g3
    by (simp add: s3_def newTraceChain_def)
  have k31: "map_option chain_color (chains s3 1) = Some nocolor"
    using k2 by (simp add: s3_def Trace_other)
  have p: "nocolor \<notin> {red, green, yellow, blue}"
    by (simp add: nocolor_def red_def green_def yellow_def blue_def)
  show ?thesis
    using c1 k31 k3 p
    unfolding Let_def s1_def [symmetric] s2_def [symmetric] s3_def [symmetric]
    by simp
qed

theorem first_chain_claims_whole_palette_witness:
  "set [red, green, yellow, blue] = {red, green, yellow, blue}
   \<and> map_option chain_color
        (chains (Trace [] 1 [] None [GStr ''b'']
                  (Trace [red, green, yellow, blue] 0 [] None [GStr ''a''] init)) 0) = Some blue
   \<and> map_option chain_color
        (chains (Trace [] 1 [] None [GStr ''b'']
                  (Trace [red, green, yellow, blue] 0 [] None [GStr ''a''] init)) 1) = Some nocolor"
proof -
  have h: "set [red, green, yellow, blue] = {red, green, yellow, blue}"
    by simp
  have a: "map_option chain_color
        (chains (Trace [] 1 [] None [GStr ''b'']
                  (Trace [red, green, yellow, blue] 0 [] None [GStr ''a''] init)) 0) = Some blue"
    by (simp add: Trace_def init_def generateNewChain_def newTraceChain_def Let_def
        addBlock_def red_def green_def yellow_def blue_def)
  have b: "map_option chain_color
        (chains (Trace [] 1 [] None [GStr ''b'']
                  (Trace [red, green, yellow, blue] 0 [] None [GStr ''a''] init)) 1) = Some nocolor"
    using first_chain_claims_whole_palette [OF h, of "[]" "None" "[GStr ''a'']" "[]" "[]" "None" "[GStr ''b'']" "[]" "[]" "None" "[]"]
    by (simp add: Let_def Trace_other)
  show ?thesis using h a b by simp
qed

lemma Trace_existing:
  "chains s i = Some ch \<Longrightarrow>
   chains (Trace order i fs obj as s) i
   = Some (ch\<lparr>blocks := blocks ch @ [newTraceBlock (chain_color ch) as obj fs]\<rparr>)"
  by (simp add: Trace_def addBlock_def)

lemma Trace_new:
  assumes "chains s i = None"
  shows "\<exists>c. chains (Trace order i fs obj as s) i
       = Some \<lparr>blocks = [newTraceBlock c as obj fs], chain_color = c\<rparr>"
proof -
  obtain cs' and ch :: "'a TraceChain"
    where r: "rangeColors order (colors s) (newTraceChain nocolor) = (cs', ch)"
    by (cases "rangeColors order (colors s) (newTraceChain nocolor :: 'a TraceChain)") auto
  have "blocks ch = []"
    using rangeColors_blocks [of order "colors s" "newTraceChain nocolor :: 'a TraceChain"] r
    by (simp add: newTraceChain_def)
  then have "ch\<lparr>blocks := blocks ch @ [newTraceBlock (chain_color ch) as obj fs]\<rparr>
             = \<lparr>blocks = [newTraceBlock (chain_color ch) as obj fs], chain_color = chain_color ch\<rparr>"
    by (cases ch) simp
  then show ?thesis
    using assms r by (auto simp: Trace_def addBlock_def generateNewChain_def Let_def)
qed

lemma Trace_outs: "outs (Trace order i fs obj as s) = outs s"
  by (auto simp: Trace_def generateNewChain_def Let_def split: option.splits prod.splits)

lemma Trace_std: "std (Trace order i fs obj as s) = std s"
  by (auto simp: Trace_def generateNewChain_def Let_def split: option.splits prod.splits)

lemma Traces_snoc:
  "Traces (cs @ [c]) s
   = (case c of (order, index, fs, obj, as) \<Rightarrow> Trace order index fs obj as (Traces cs s))"
  by (simp add: Traces_def)

lemma Traces_outs: "outs (Traces cs s) = outs s"
  by (induction cs rule: rev_induct)
     (simp_all add: Traces_snoc Trace_outs Traces_def split: prod.splits)

lemma Traces_std: "std (Traces cs s) = std s"
  by (induction cs rule: rev_induct)
     (simp_all add: Traces_snoc Trace_std Traces_def split: prod.splits)

lemma Traces_chain:
  assumes "chains s i = None"
  shows "case chains (Traces cs s) i of
           None \<Rightarrow> filter (\<lambda>c. call_index c = i) cs = []
         | Some ch \<Rightarrow>
             blocks ch = map (call_block (chain_color ch)) (filter (\<lambda>c. call_index c = i) cs)"
proof (induction cs rule: rev_induct)
  case Nil
  then show ?case using assms by (simp add: Traces_def)
next
  case (snoc c cs)
  obtain order index fs obj as where c: "c = (order, index, fs, obj, as)"
    by (cases c) auto
  show ?case
  proof (cases "index = i")
    case False
    then show ?thesis
      using snoc by (simp add: Traces_snoc c Trace_other call_index_def split: option.splits)
  next
    case True
    show ?thesis
    proof (cases "chains (Traces cs s) i")
      case None
      then obtain col where "chains (Trace order i fs obj as (Traces cs s)) i
         = Some \<lparr>blocks = [newTraceBlock col as obj fs], chain_color = col\<rparr>"
        using Trace_new by blast
      then show ?thesis
        using snoc None True by (simp add: Traces_snoc c call_index_def call_block_def)
    next
      case (Some ch)
      then show ?thesis
        using snoc True
        by (simp add: Traces_snoc c Trace_existing call_index_def call_block_def)
    qed
  qed
qed

lemma std_writer_cong: "std s = std s' \<Longrightarrow> std_writer s = std_writer s'"
  by (simp add: std_writer_def StandardLogger_def Let_def split: option.splits)

lemma printBlock_serialised:
  assumes "serialises lib (Obj block)"
  shows "\<exists>s'. printBlock lib order block s = Inr s'
             \<and> chains s' = chains s \<and> std_writer s' = std_writer s
             \<and> outs s' = Write (std_writer s) (rendered_block lib order block) (outs s)"
proof -
  obtain j where j: "json_Marshal lib (Obj block) = Inr j"
    using assms by (auto simp: serialises_def split: sum.splits)
  show ?thesis
    using j
    by (auto simp: printBlock_def rendered_block_def std_writer_def StandardLogger_def Let_def
        split: option.splits)
qed

lemma printBlocks_serialised:
  assumes "\<forall>b \<in> set bs. serialises lib (Obj b)"
  shows "\<exists>s'. printBlocks lib orders n bs s = Inr s'
             \<and> chains s' = chains s \<and> std_writer s' = std_writer s
             \<and> outs s' = (outs s)(std_writer s := outs s (std_writer s)
                   @ map (\<lambda>(k, b). rendered_block lib (orders k) b) (enumerate n bs))"
  using assms
proof (induction bs arbitrary: n s)
  case Nil
  then show ?case by simp
next
  case (Cons b bs)
  have hd: "serialises lib (Obj b)" and tl: "\<forall>b \<in> set bs. serialises lib (Obj b)"
    using Cons.prems by simp_all
  obtain s1 where s1: "printBlock lib (orders n) b s = Inr s1" "chains s1 = chains s"
      "std_writer s1 = std_writer s"
      "outs s1 = Write (std_writer s) (rendered_block lib (orders n) b) (outs s)"
    using printBlock_serialised [OF hd, of "orders n" s] by blast
  obtain s' where s': "printBlocks lib orders (Suc n) bs s1 = Inr s'" "chains s' = chains s1"
      "std_writer s' = std_writer s1"
      "outs s' = (outs s1)(std_writer s1 := outs s1 (std_writer s1)
         @ map (\<lambda>(k, b). rendered_block lib (orders k) b) (enumerate (Suc n) bs))"
    using Cons.IH [OF tl, of "Suc n" s1] by blast
  have o: "outs s' = (outs s)(std_writer s := outs s (std_writer s)
          @ map (\<lambda>(k, b). rendered_block lib (orders k) b) (enumerate n (b # bs)))"
    using s1 s' by (simp add: Write_def)
  have r: "printBlocks lib orders n (b # bs) s = Inr s'"
    using s1(1) s'(1) by simp
  have c: "chains s' = chains s" and w: "std_writer s' = std_writer s"
    using s1 s' by simp_all
  show ?case
    using r c w o by blast
qed

lemma TraceEnd_on:
  assumes "chains s i = None"
    and "\<forall>c \<in> set cs. call_index c = i \<longrightarrow> serialises lib (call_obj c)"
    and "chains t = chains (Traces cs s)"
    and "col = (case chains (Traces cs s) i of Some ch \<Rightarrow> chain_color ch | None \<Rightarrow> nocolor)"
  shows "\<exists>s1. TraceEnd lib orders i t = Inr s1
           \<and> chains s1 = chains t \<and> std_writer s1 = std_writer t
           \<and> outs s1 = (outs t)(std_writer t :=
                          outs t (std_writer t) @ channel_texts lib orders col i cs)"
proof (cases "chains (Traces cs s) i")
  case None
  then have "filter (\<lambda>c. call_index c = i) cs = []"
    using Traces_chain [OF assms(1), of cs] by simp
  then show ?thesis
    using None assms(3) by (simp add: TraceEnd_def channel_texts_def)
next
  case (Some ch)
  then have b: "blocks ch = map (call_block col) (filter (\<lambda>c. call_index c = i) cs)"
    using Traces_chain [OF assms(1), of cs] assms(4) by simp
  have "\<forall>b \<in> set (blocks ch). serialises lib (Obj b)"
    using assms(2) by (auto simp: b call_block_def call_obj_def newTraceBlock_def)
  then obtain s1 where "printBlocks lib orders 0 (blocks ch) t = Inr s1"
      "chains s1 = chains t" "std_writer s1 = std_writer t"
      "outs s1 = (outs t)(std_writer t := outs t (std_writer t)
         @ map (\<lambda>(k, b). rendered_block lib (orders k) b) (enumerate 0 (blocks ch)))"
    using printBlocks_serialised [of "blocks ch" lib orders 0 t] by blast
  then show ?thesis
    using Some b assms(3) by (simp add: TraceEnd_def channel_texts_def)
qed

text \<open>
  What \<open>TraceEnd\<close> does when every payload appended to the channel serialises: it writes,
  on the standard logger's writer, the texts of the channel's blocks in the order of the
  calls and nothing of another channel, and leaves every chain as it was, so that a second
  \<open>TraceEnd\<close> writes the same blocks again in the same order.
\<close>

lemma TraceEnd_serialisable_in_order:
  assumes "chains s i = None"
    and "\<forall>c \<in> set cs. call_index c = i \<longrightarrow> serialises lib (call_obj c)"
  shows "\<exists>col s1 s2.
           TraceEnd lib orders1 i (Traces cs s) = Inr s1 \<and> TraceEnd lib orders2 i s1 = Inr s2
           \<and> outs s1 = (outs s)(std_writer s :=
                          outs s (std_writer s) @ channel_texts lib orders1 col i cs)
           \<and> outs s2 = (outs s)(std_writer s :=
                          outs s (std_writer s) @ channel_texts lib orders1 col i cs
                          @ channel_texts lib orders2 col i cs)
           \<and> chains s1 = chains (Traces cs s) \<and> chains s2 = chains (Traces cs s)"
proof -
  define col where
    "col = (case chains (Traces cs s) i of Some ch \<Rightarrow> chain_color ch | None \<Rightarrow> nocolor)"
  have w: "std_writer (Traces cs s) = std_writer s"
    by (rule std_writer_cong) (rule Traces_std)
  obtain s1 where s1: "TraceEnd lib orders1 i (Traces cs s) = Inr s1"
      "chains s1 = chains (Traces cs s)" "std_writer s1 = std_writer s"
      "outs s1 = (outs s)(std_writer s :=
                   outs s (std_writer s) @ channel_texts lib orders1 col i cs)"
    using TraceEnd_on [OF assms refl col_def, of orders1] w by (auto simp: Traces_outs)
  obtain s2 where s2: "TraceEnd lib orders2 i s1 = Inr s2" "chains s2 = chains s1"
      "outs s2 = (outs s1)(std_writer s1 :=
                   outs s1 (std_writer s1) @ channel_texts lib orders2 col i cs)"
    using TraceEnd_on [OF assms s1(2) col_def, of orders2] by blast
  have o2: "outs s2 = (outs s)(std_writer s :=
              outs s (std_writer s) @ channel_texts lib orders1 col i cs
              @ channel_texts lib orders2 col i cs)"
    using s1 s2 by simp
  show ?thesis
    by (rule exI [of _ col], rule exI [of _ s1], rule exI [of _ s2]) (simp add: s1 s2(1,2) o2)
qed

text \<open>
  C4. The code does not render the blocks of a channel whenever it is asked to: with a
  channel as the payload of the first of two blocks on channel 0, \<open>TraceEnd 0\<close> panics in
  \<open>printBlock\<close> with the error of \<open>json.Marshal\<close> and renders neither block, whatever the
  order in which the fields are visited. It is the defect of C6.
\<close>

theorem TraceEnd_panics_before_rendering:
  "TraceEnd sample_lib orders 0
     (Traces [([red, green, yellow, blue], 0, [], Some GChan, [GStr ''A'']),
              ([], 0, [], None, [GStr ''B''])] init)
   = Inl (PanicErr ''json: unsupported type: chan int'')"
  by (simp add: TraceEnd_def Traces_def Trace_def init_def generateNewChain_def newTraceChain_def
      Let_def addBlock_def newTraceBlock_def printBlock_def sample_lib_def marshal_def
      red_def green_def yellow_def blue_def)

text \<open>
  C6. The code does not recover a serialisation failure in \<open>printBlock\<close>: when
  \<open>json.Marshal\<close> rejects the payload of a traced block, \<open>TraceEnd\<close> panics with the
  error. The two \<open>WithStruct\<close> functions do recover: they return an entry that carries
  the error as a field.
\<close>

theorem printBlock_panics_on_marshal_error:
  assumes "json_Marshal lib obj = Inl err" and "chains s i = None"
  shows "TraceEnd lib orders i (Trace order i fs obj as s) = Inl (PanicErr err)
         \<and> fst (Logger_WithStruct lib pick logger obj)
             = Entry_WithError lib (fst (newEntry lib pick logger)) err
         \<and> fst (WithStruct lib pick s obj)
             = Entry_WithField (fst (newEntry lib pick (fst (StandardLogger s))))
                 (ErrorKey lib) (error_value lib err)"
proof -
  obtain c where "chains (Trace order i fs obj as s) i
       = Some \<lparr>blocks = [newTraceBlock c as obj fs], chain_color = c\<rparr>"
    using Trace_new [OF assms(2)] by blast
  then have t: "TraceEnd lib orders i (Trace order i fs obj as s) = Inl (PanicErr err)"
    using assms(1) by (simp add: TraceEnd_def printBlock_def newTraceBlock_def)
  have l: "fst (Logger_WithStruct lib pick logger obj)
             = Entry_WithError lib (fst (newEntry lib pick logger)) err"
    using assms(1)
    by (simp add: Logger_WithStruct_def Logger_WithError_def case_prod_beta)
  have p: "fst (WithStruct lib pick s obj)
             = Entry_WithField (fst (newEntry lib pick (fst (StandardLogger s))))
                 (ErrorKey lib) (error_value lib err)"
    using assms(1)
    by (simp add: WithStruct_def WithError_def Logger_WithField_def case_prod_beta)
  show ?thesis
    using t l p by simp
qed

theorem printBlock_panics_on_marshal_error_witness:
  "json_Marshal sample_lib (Some GChan) = Inl ''json: unsupported type: chan int''
   \<and> chains (init :: gval pkg) 0 = None
   \<and> TraceEnd sample_lib (\<lambda>n. []) 0 (Trace [red, green, yellow, blue] 0 [] (Some GChan) [] init)
       = Inl (PanicErr ''json: unsupported type: chan int'')
   \<and> map_of (GetData (fst (Logger_WithStruct sample_lib 0 (New []) (Some GChan)))) ''error''
       = Some (GErr ''json: unsupported type: chan int'')"
proof -
  have m: "json_Marshal sample_lib (Some GChan) = Inl ''json: unsupported type: chan int''"
    by (simp add: sample_lib_def marshal_def)
  have a: "chains (init :: gval pkg) 0 = None"
    by (simp add: init_def)
  have e: "map_of (GetData (Entry_WithError sample_lib (fst (newEntry sample_lib 0 (New []))) 
                ''json: unsupported type: chan int'')) ''error''
           = Some (GErr ''json: unsupported type: chan int'')"
    by (simp add: Entry_WithError_def Entry_WithField_def Entry_WithFields_def newEntry_def
        Pool_Get_def New_def NewEntry_def sample_lib_def Let_def)
  show ?thesis
    using printBlock_panics_on_marshal_error
      [OF m a, of "\<lambda>n. []" "[red, green, yellow, blue]" "[]" "[]" 0 "New []"]
      m a e by simp
qed

section \<open>Properties of the logger\<close>

lemma newEntry_frame:
  "Out (snd (newEntry lib pick logger)) = Out logger"
  "Formatter (snd (newEntry lib pick logger)) = Formatter logger"
  "Level (snd (newEntry lib pick logger)) = Level logger"
  "moduleName (snd (newEntry lib pick logger)) = moduleName logger"
  by (simp_all add: newEntry_def Pool_Get_def)

lemma log_and_release_writes:
  "\<exists>bytes l' e.
     TextFormatter_Format lib (Formatter logger) (record_at lib now pick logger S msg) 0 = Inr bytes
     \<and> log_and_release lib now pick logger os S msg = Inr (l', Write (Out logger) bytes os, e)"
proof -
  obtain bytes where
    "TextFormatter_Format lib (Formatter logger) (record_at lib now pick logger S msg) 0 = Inr bytes"
    using TextFormatter_Format_total by blast
  then show ?thesis
    by (simp add: log_and_release_def Entry_log_def record_at_def case_prod_beta Let_def
        newEntry_frame)
qed

lemma gate:
  "writes_iff_enabled lib now pick logger os S msg
     (if Level logger \<ge> S then log_and_release lib now pick logger os S msg
      else Inr (logger, os, Returns))"
  using log_and_release_writes [of lib logger now pick S msg os]
  by (simp add: writes_iff_enabled_def)

text \<open>
  C1. For every threshold and each of the twenty severity methods (\<open>Debug\<close>, \<open>Info\<close>,
  \<open>Warn\<close>, \<open>Error\<close>, \<open>Fatal\<close>, \<open>Panic\<close>, their \<open>f\<close> and \<open>ln\<close> variants, and
  \<open>Warningf\<close>, \<open>Warningln\<close>): the call writes the rendered record to the logger's output
  when the threshold is at or above the method's severity, and otherwise writes nothing and
  leaves the logger as it was. The severities are ordered Panic, Fatal, Error, Warn, Info,
  Debug.
\<close>

theorem severity_methods_write_iff_enabled:
  "writes_iff_enabled lib now pick logger os DebugLevel (fmt_Sprintf lib format as)
     (Logger_Debugf lib now pick logger os format as)
   \<and> writes_iff_enabled lib now pick logger os InfoLevel (fmt_Sprintf lib format as)
     (Logger_Infof lib now pick logger os format as)
   \<and> writes_iff_enabled lib now pick logger os WarnLevel (fmt_Sprintf lib format as)
     (Logger_Warnf lib now pick logger os format as)
   \<and> writes_iff_enabled lib now pick logger os WarnLevel (fmt_Sprintf lib format as)
     (Logger_Warningf lib now pick logger os format as)
   \<and> writes_iff_enabled lib now pick logger os ErrorLevel (fmt_Sprintf lib format as)
     (Logger_Errorf lib now pick logger os format as)
   \<and> writes_iff_enabled lib now pick logger os FatalLevel (fmt_Sprintf lib format as)
     (Logger_Fatalf lib now pick logger os format as)
   \<and> writes_iff_enabled lib now pick logger os PanicLevel (fmt_Sprintf lib format as)
     (Logger_Panicf lib now pick logger os format as)
   \<and> writes_iff_enabled lib now pick logger os DebugLevel (fmt_Sprint lib as)
     (Logger_Debug lib now pick logger os as)
   \<and> writes_iff_enabled lib now pick logger os InfoLevel (fmt_Sprint lib as)
     (Logger_Info lib now pick logger os as)
   \<and> writes_iff_enabled lib now pick logger os WarnLevel (fmt_Sprint lib as)
     (Logger_Warn lib now pick logger os as)
   \<and> writes_iff_enabled lib now pick logger os ErrorLevel (fmt_Sprint lib as)
     (Logger_Error lib now pick logger os as)
   \<and> writes_iff_enabled lib now pick logger os FatalLevel (fmt_Sprint lib as)
     (Logger_Fatal lib now pick logger os as)
   \<and> writes_iff_enabled lib now pick logger os PanicLevel (fmt_Sprint lib as)
     (Logger_Panic lib now pick logger os as)
   \<and> writes_iff_enabled lib now pick logger os DebugLevel (fmt_Sprintln lib as)
     (Logger_Debugln lib now pick logger os as)
   \<and> writes_iff_enabled lib now pick logger os InfoLevel (fmt_Sprintln lib as)
     (Logger_Infoln lib now pick logger os as)
   \<and> writes_iff_enabled lib now pick logger os WarnLevel (fmt_Sprintln lib as)
     (Logger_Warnln lib now pick logger os as)
   \<and> writes_iff_enabled lib now pick logger os WarnLevel (fmt_Sprintln lib as)
     (Logger_Warningln lib now pick logger os as)
   \<and> writes_iff_enabled lib now pick logger os ErrorLevel (fmt_Sprintln lib as)
     (Logger_Errorln lib now pick logger os as)
   \<and> writes_iff_enabled lib now pick logger os FatalLevel (fmt_Sprintln lib as)
     (Logger_Fatalln lib now pick logger os as)
   \<and> writes_iff_enabled lib now pick logger os PanicLevel (fmt_Sprintln lib as)
     (Logger_Panicln lib now pick logger os as)
   \<and> PanicLevel < FatalLevel \<and> FatalLevel < ErrorLevel \<and> ErrorLevel < WarnLevel
   \<and> WarnLevel < InfoLevel \<and> InfoLevel < DebugLevel"
  unfolding Logger_Debugf_def Logger_Infof_def Logger_Warnf_def Logger_Warningf_def
    Logger_Errorf_def Logger_Fatalf_def Logger_Panicf_def Logger_Debug_def Logger_Info_def
    Logger_Warn_def Logger_Error_def Logger_Fatal_def Logger_Panic_def Logger_Debugln_def
    Logger_Infoln_def Logger_Warnln_def Logger_Warningln_def Logger_Errorln_def
    Logger_Fatalln_def Logger_Panicln_def
  by (intro conjI gate) (simp_all add: Level_defs)


theorem severity_methods_write_iff_enabled_witness:
  "Level warn_logger = WarnLevel \<and> \<not> Level warn_logger \<ge> InfoLevel
   \<and> Level warn_logger \<ge> ErrorLevel
   \<and> Logger_Info sample_lib 5 0 warn_logger (\<lambda>w. []) [GStr ''boom'']
       = Inr (warn_logger, (\<lambda>w. []), Returns)
   \<and> (\<exists>l' e. Logger_Error sample_lib 5 0 warn_logger (\<lambda>w. []) [GStr ''boom'']
             = Inr (l', Write Stderr
                      (''error'' @ ''boom'' @ replicate 40 (CHR '' '') @ ''  (main)[5]'' @ NL)
                      (\<lambda>w. []), e))"
proof -
  note t = severity_methods_write_iff_enabled
    [of sample_lib 5 0 warn_logger "\<lambda>w. []" "[]" "[GStr ''boom'']"]
  have l: "Level warn_logger = WarnLevel" and o: "Out warn_logger = Stderr"
    by (simp_all add: warn_logger_def SetLevel_def New_def)
  have i: "writes_iff_enabled sample_lib 5 0 warn_logger (\<lambda>w. []) InfoLevel
             (fmt_Sprint sample_lib [GStr ''boom''])
             (Logger_Info sample_lib 5 0 warn_logger (\<lambda>w. []) [GStr ''boom''])"
    and e: "writes_iff_enabled sample_lib 5 0 warn_logger (\<lambda>w. []) ErrorLevel
             (fmt_Sprint sample_lib [GStr ''boom''])
             (Logger_Error sample_lib 5 0 warn_logger (\<lambda>w. []) [GStr ''boom''])"
    using t by simp_all
  have f: "TextFormatter_Format sample_lib (Formatter warn_logger)
             (record_at sample_lib 5 0 warn_logger ErrorLevel (fmt_Sprint sample_lib [GStr ''boom''])) 0
           = Inr (''error'' @ ''boom'' @ replicate 40 (CHR '' '') @ ''  (main)[5]'' @ NL)"
    by (simp add: TextFormatter_Format_def warn_logger_def SetLevel_def New_def
        new_TextFormatter_def record_at_def newEntry_def Pool_Get_def NewEntry_def
        sample_lib_def Let_def Level_String_def Level_defs digit_5)
  have i': "Logger_Info sample_lib 5 0 warn_logger (\<lambda>w. []) [GStr ''boom'']
            = Inr (warn_logger, (\<lambda>w. []), Returns)"
    using i l by (simp add: writes_iff_enabled_def Level_defs)
  have e': "\<exists>l' e. Logger_Error sample_lib 5 0 warn_logger (\<lambda>w. []) [GStr ''boom'']
             = Inr (l', Write Stderr
                      (''error'' @ ''boom'' @ replicate 40 (CHR '' '') @ ''  (main)[5]'' @ NL)
                      (\<lambda>w. []), e)"
    using e l o f by (auto simp: writes_iff_enabled_def Level_defs)
  show ?thesis
    using l i' e' by (simp add: Level_defs)
qed

text \<open>
  C9. \<open>Print\<close>, \<open>Printf\<close> and \<open>Println\<close> write a record whatever the logger's threshold
  is, and the level of the record is the threshold itself.
\<close>

theorem print_methods_write_at_threshold:
  "(\<exists>bytes l' e.
      TextFormatter_Format lib (Formatter logger)
        (record_at lib now pick logger (Level logger) (fmt_Sprint lib as)) 0 = Inr bytes
      \<and> Logger_Print lib now pick logger os as = Inr (l', Write (Out logger) bytes os, e))
   \<and> (\<exists>bytes l' e.
      TextFormatter_Format lib (Formatter logger)
        (record_at lib now pick logger (Level logger) (fmt_Sprintf lib format as)) 0 = Inr bytes
      \<and> Logger_Printf lib now pick logger os format as = Inr (l', Write (Out logger) bytes os, e))
   \<and> (\<exists>bytes l' e.
      TextFormatter_Format lib (Formatter logger)
        (record_at lib now pick logger (Level logger) (fmt_Sprintln lib as)) 0 = Inr bytes
      \<and> Logger_Println lib now pick logger os as = Inr (l', Write (Out logger) bytes os, e))
   \<and> GetLevel (record_at lib now pick logger (Level logger) msg) = Level logger
   \<and> Write (Out logger) bytes os (Out logger) = os (Out logger) @ [bytes]"
  unfolding Logger_Print_def Logger_Printf_def Logger_Println_def
  by (intro conjI log_and_release_writes) (simp_all add: record_at_def Write_def)

theorem print_methods_write_at_threshold_witness:
  "\<exists>l' e. Logger_Print sample_lib 5 0 (SetLevel warn_logger PanicLevel) (\<lambda>w. []) [GStr ''boom'']
         = Inr (l', Write Stderr
                  (''panic'' @ ''boom'' @ replicate 40 (CHR '' '') @ ''  (main)[5]'' @ NL)
                  (\<lambda>w. []), e)"
proof -
  have f: "TextFormatter_Format sample_lib (Formatter (SetLevel warn_logger PanicLevel))
             (record_at sample_lib 5 0 (SetLevel warn_logger PanicLevel)
                (Level (SetLevel warn_logger PanicLevel)) (fmt_Sprint sample_lib [GStr ''boom''])) 0
           = Inr (''panic'' @ ''boom'' @ replicate 40 (CHR '' '') @ ''  (main)[5]'' @ NL)"
    by (simp add: TextFormatter_Format_def warn_logger_def SetLevel_def New_def
        new_TextFormatter_def record_at_def newEntry_def Pool_Get_def NewEntry_def
        sample_lib_def Let_def Level_String_def Level_defs digit_5)
  have o: "Out (SetLevel warn_logger PanicLevel) = Stderr"
    by (simp add: warn_logger_def SetLevel_def New_def)
  show ?thesis
    using print_methods_write_at_threshold
      [of sample_lib "SetLevel warn_logger PanicLevel" 5 0 "[GStr ''boom'']" "\<lambda>w. []"]
      f o by auto
qed

text \<open>
  C2. The code does not default to Info: \<open>New\<close> sets the threshold to Debug, so a brand-new
  logger also writes the records of \<open>Debug\<close>. The output is the standard error stream and
  the formatter the text formatter, as the claim says.
\<close>

theorem New_defaults_to_Debug:
  "Out (New names :: 'v Logger) = Stderr
   \<and> Formatter (New names :: 'v Logger) = new_TextFormatter
   \<and> Level (New names :: 'v Logger) = DebugLevel
   \<and> InfoLevel < Level (New names :: 'v Logger)
   \<and> (\<exists>bytes l' e. Logger_Debug (lib :: 'v golib) now pick (New names) os as
                    = Inr (l', Write Stderr bytes os, e))"
proof -
  have d: "Level (New names :: 'v Logger) = DebugLevel" and o: "Out (New names :: 'v Logger) = Stderr"
    by (simp_all add: New_def Let_def)
  have "\<exists>bytes l' e. Logger_Debug lib now pick (New names) os as = Inr (l', Write Stderr bytes os, e)"
    using log_and_release_writes [of lib "New names" now pick DebugLevel "fmt_Sprint lib as" os] d o
    by (auto simp: Logger_Debug_def)
  then show ?thesis
    by (simp add: New_def Let_def Level_defs)
qed

end
